theory Spec2Isabelle
  imports Complex_Main "HOL-Library.Sublist"
begin

section \<open>Python values used by the agent service and the agent router\<close>

text \<open>
  A Python \<open>str\<close> is a sequence of Unicode code points, so a string is a list of
  natural numbers. The keywords and messages of the source are mostly Chinese; they are
  written here as their code points, with an English gloss beside each.
  \<open>u\<close> turns an ASCII literal into such a string.
\<close>

type_synonym ustr = "nat list"

definition u :: "string \<Rightarrow> ustr" where
  "u s = map of_char s"

text \<open>
  The values that travel through \<open>Dict[str, Any]\<close> parameters and payloads:
  \<open>None\<close>, booleans, integers, strings and lists. \<open>truthy\<close> is Python's truth
  test, as used by \<open>if not image_id\<close> and \<open>if session_id\<close>.
\<close>

datatype pyval = PNone | PBool bool | PInt int | PStr ustr | PList "pyval list"

fun truthy :: "pyval \<Rightarrow> bool" where
  "truthy PNone = False"
| "truthy (PBool b) = b"
| "truthy (PInt i) = (i \<noteq> 0)"
| "truthy (PStr s) = (s \<noteq> [])"
| "truthy (PList xs) = (xs \<noteq> [])"

text \<open>
  \<open>str(n)\<close> for an integer, as an f-string renders \<open>{total}\<close>: decimal digits, with a
  minus sign for a negative number.
\<close>

fun str_nat :: "nat \<Rightarrow> ustr" where
  "str_nat n = (if n < 10 then [48 + n] else str_nat (n div 10) @ [48 + n mod 10])"

declare str_nat.simps [simp del]

definition str_int :: "int \<Rightarrow> ustr" where
  "str_int i = (if i < 0 then 45 # str_nat (nat (- i)) else str_nat (nat i))"

text \<open>
  \<open>str.lower()\<close> is a builtin whose full Unicode case table is not part of the
  repository; the functions that call it take it as the parameter \<open>str_lower\<close>.
  \<open>lower_ascii\<close> is the instance that agrees with it on every string made of ASCII
  and caseless (for example CJK) characters, which covers all keywords of the source.
\<close>

definition lower_ascii :: "ustr \<Rightarrow> ustr" where
  "lower_ascii s = map (\<lambda>c. if 65 \<le> c \<and> c \<le> 90 then c + 32 else c) s"

section \<open>The agent service (app/services/agent\_service.py)\<close>

subsection \<open>Intent detection\<close>

text \<open>
  The four keyword lists of \<open>detect_intent\<close>, in source order.
  Delete: shanchu (U+5220 U+9664), shandiao (U+5220 U+6389), remove, delete.
  Upload: shangchuan (U+4E0A U+4F20), tianjia (U+6DFB U+52A0), upload, add.
  Analyze: fenxi (U+5206 U+6790), shibie (U+8BC6 U+522B),
  zhe shi shenme "what is this" (U+8FD9 U+662F U+4EC0 U+4E48), analyze.
\<close>

definition delete_keywords :: "ustr list" where
  "delete_keywords = [[21024, 38500], [21024, 25481], u ''remove'', u ''delete'']"

definition upload_keywords :: "ustr list" where
  "upload_keywords = [[19978, 20256], [28155, 21152], u ''upload'', u ''add'']"

definition analyze_keywords :: "ustr list" where
  "analyze_keywords =
     [[20998, 26512], [35782, 21035], [36825, 26159, 20160, 20040], u ''analyze'']"

record intent_result =
  ir_intent :: ustr
  ir_confidence :: rat
  ir_entities :: "ustr \<rightharpoonup> pyval"

text \<open>
  \<open>any(kw in query_lower for kw in [...])\<close>: Python's \<open>in\<close> on strings is
  contiguous containment, which is \<open>sublist\<close>.
\<close>

definition any_kw_in :: "ustr list \<Rightarrow> ustr \<Rightarrow> bool" where
  "any_kw_in kws query_lower = list_ex (\<lambda>kw. sublist kw query_lower) kws"

definition detect_intent :: "(ustr \<Rightarrow> ustr) \<Rightarrow> ustr \<Rightarrow> intent_result" where
  "detect_intent str_lower user_query =
     (let query_lower = str_lower user_query in
      if any_kw_in delete_keywords query_lower then
        \<lparr>ir_intent = u ''delete'', ir_confidence = 0.8, ir_entities = Map.empty\<rparr>
      else if any_kw_in upload_keywords query_lower then
        \<lparr>ir_intent = u ''upload'', ir_confidence = 0.8, ir_entities = Map.empty\<rparr>
      else if any_kw_in analyze_keywords query_lower then
        \<lparr>ir_intent = u ''analyze'', ir_confidence = 0.7, ir_entities = Map.empty\<rparr>
      else
        \<lparr>ir_intent = u ''search'', ir_confidence = 0.9, ir_entities = Map.empty\<rparr>)"

subsection \<open>Sessions\<close>

text \<open>
  A session is the dictionary built by \<open>create_session\<close>; it always has the four
  keys \<open>user_id\<close>, \<open>created_at\<close>, \<open>history\<close>, \<open>context\<close>, so it is a record
  (and, having keys, it is never falsy). A history entry is the dictionary appended by
  \<open>optimize_query\<close>. \<open>datetime.now()\<close> is read from the clock; its value is passed
  to the function that reads it, as a number of ticks.
\<close>

type_synonym datetime = nat

record event =
  ev_type :: ustr
  ev_original :: ustr
  ev_optimized :: ustr
  ev_timestamp :: datetime

record session =
  s_user_id :: "ustr option"
  s_created_at :: datetime
  s_history :: "event list"
  s_context :: "ustr \<rightharpoonup> pyval"

text \<open>
  The attributes of an \<open>AgentService\<close> object after \<open>__init__\<close>:
  \<open>_initialized\<close> and \<open>_sessions\<close> (\<open>_llm_client\<close> is always \<open>None\<close> and is
  left out).
\<close>

record agent_service =
  svc_initialized :: bool
  svc_sessions :: "ustr \<rightharpoonup> session"

definition initialize :: "agent_service \<Rightarrow> agent_service" where
  "initialize svc = (if svc_initialized svc then svc else svc\<lparr>svc_initialized := True\<rparr>)"

definition is_initialized :: "agent_service \<Rightarrow> bool" where
  "is_initialized svc = svc_initialized svc"

text \<open>
  \<open>create_session\<close>: \<open>uuid4\<close> is the string \<open>str(uuid.uuid4())\<close> drawn by this call
  and \<open>now\<close> the clock value it reads. The assignment
  \<open>self._sessions[session_id] = {...}\<close> overwrites whatever was stored under that key.
\<close>

definition create_session ::
  "ustr option \<Rightarrow> ustr \<Rightarrow> datetime \<Rightarrow> agent_service \<Rightarrow> ustr \<times> agent_service" where
  "create_session uid uuid4 now svc =
     (let session_id = uuid4 in
      (session_id,
       svc\<lparr>svc_sessions := (svc_sessions svc)(session_id \<mapsto>
         \<lparr>s_user_id = uid, s_created_at = now, s_history = [], s_context = Map.empty\<rparr>)\<rparr>))"

definition get_session :: "ustr \<Rightarrow> agent_service \<Rightarrow> session option" where
  "get_session session_id svc = svc_sessions svc session_id"

subsection \<open>Query optimisation\<close>

text \<open>
  \<open>optimize_query\<close> returns the query and the updated service. \<open>if session_id:\<close>
  is false for \<open>None\<close> and for the empty string; \<open>if session:\<close> is false only when
  the lookup gave \<open>None\<close>.
\<close>

definition optimize_query ::
  "ustr \<Rightarrow> ustr option \<Rightarrow> datetime \<Rightarrow> agent_service \<Rightarrow> ustr \<times> agent_service" where
  "optimize_query user_query session_id now svc =
     (let optimized_query = user_query in
      case session_id of
        None \<Rightarrow> (optimized_query, svc)
      | Some sid \<Rightarrow>
          if sid = [] then (optimized_query, svc)
          else
            (case get_session sid svc of
               None \<Rightarrow> (optimized_query, svc)
             | Some session \<Rightarrow>
                 (optimized_query,
                  svc\<lparr>svc_sessions := (svc_sessions svc)(sid \<mapsto>
                    session\<lparr>s_history := s_history session @
                      [\<lparr>ev_type = u ''query_optimize'', ev_original = user_query,
                        ev_optimized = optimized_query, ev_timestamp = now\<rparr>]\<rparr>)\<rparr>)))"

subsection \<open>Replies and suggestions\<close>

text \<open>
  The value handed to \<open>generate_response\<close> and \<open>generate_suggestions\<close> as
  \<open>results\<close>: both functions only test \<open>isinstance(results, dict)\<close> and read the key
  \<open>total\<close>. \<open>RNone\<close> stands for \<open>None\<close> and any other value that is not a dictionary;
  a dictionary carries the keys the chat handler writes (\<open>total\<close>, \<open>images\<close>,
  \<open>message\<close>), each possibly absent, with \<open>total\<close> an integer count.
\<close>

record rdict =
  r_total :: "int option"
  r_images :: "pyval list option"
  r_message :: "ustr option"

datatype results = RNone | RDict rdict

text \<open>\<open>results.get("total", 0)\<close>\<close>

definition get_total :: "rdict \<Rightarrow> int" where
  "get_total d = (case r_total d of None \<Rightarrow> 0 | Some t \<Rightarrow> t)"

text \<open>Reply for no match, before the query: "Sorry, found no photos related to [".\<close>

definition resp_none_pre :: ustr where
  "resp_none_pre =
     [25265, 27465, 65292, 27809, 26377, 25214, 21040, 19982, 12300]"

text \<open>Reply for no match, after the query: "]. You could try describing it another way."\<close>

definition resp_none_post :: ustr where
  "resp_none_post =
     [12301, 30456, 20851, 30340, 29031, 29255, 12290, 21487, 20197, 23581, 35797,
      25442, 20010, 25551, 36848, 26041, 24335, 12290]"

text \<open>Reply for one match, before the query: "Found 1 photo matching [".\<close>

definition resp_one_pre :: ustr where
  "resp_one_pre =
     [25214, 21040, 32, 49, 32, 24352, 31526, 21512, 12300]"

text \<open>Reply for one match, after the query: "]."\<close>

definition resp_one_post :: ustr where
  "resp_one_post =
     [12301, 30340, 29031, 29255, 12290]"

text \<open>Reply for several matches, before the count: "Found for you ".\<close>

definition resp_many_pre :: ustr where
  "resp_many_pre =
     [20026, 24744, 25214, 21040, 20102, 32]"

text \<open>Reply for several matches, between count and query: " photos related to [".\<close>

definition resp_many_mid :: ustr where
  "resp_many_mid =
     [32, 24352, 19982, 12300]"

text \<open>Reply for several matches, after the query: "]."\<close>

definition resp_many_post :: ustr where
  "resp_many_post =
     [12301, 30456, 20851, 30340, 29031, 29255, 12290]"

text \<open>"The delete operation is complete."\<close>

definition resp_delete :: ustr where
  "resp_delete =
     [21024, 38500, 25805, 20316, 24050, 23436, 25104, 12290]"

text \<open>"Image uploaded successfully."\<close>

definition resp_upload :: ustr where
  "resp_upload =
     [22270, 29255, 19978, 20256, 25104, 21151, 12290]"

text \<open>"Image analysis is coming soon, stay tuned."\<close>

definition resp_analyze :: ustr where
  "resp_analyze =
     [22270, 29255, 20998, 26512, 21151, 33021, 21363, 23558, 19978, 32447, 65292,
      25964, 35831, 26399, 24453, 12290]"

text \<open>"Your request has been completed."\<close>

definition resp_done :: ustr where
  "resp_done =
     [24050, 23436, 25104, 24744, 30340, 35831, 27714, 12290]"

definition generate_response :: "ustr \<Rightarrow> results \<Rightarrow> ustr \<Rightarrow> ustr" where
  "generate_response intent rs user_query =
     (if intent = u ''search'' then
        (case rs of
           RDict d \<Rightarrow>
             (let total = get_total d in
              if total = 0 then resp_none_pre @ user_query @ resp_none_post
              else if total = 1 then resp_one_pre @ user_query @ resp_one_post
              else resp_many_pre @ str_int total @ resp_many_mid @ user_query @ resp_many_post)
         | RNone \<Rightarrow> resp_done)
      else if intent = u ''delete'' then resp_delete
      else if intent = u ''upload'' then resp_upload
      else if intent = u ''analyze'' then resp_analyze
      else resp_done)"

text \<open>"Try another description."\<close>

definition sugg_rephrase :: ustr where
  "sugg_rephrase =
     [25442, 20010, 25551, 36848, 35797, 35797]"

text \<open>"View all photos."\<close>

definition sugg_view_all :: ustr where
  "sugg_view_all =
     [26597, 30475, 25152, 26377, 29031, 29255]"

text \<open>"Filter by date."\<close>

definition sugg_by_date :: ustr where
  "sugg_by_date =
     [25353, 26085, 26399, 31579, 36873]"

text \<open>"Add more detail to narrow the range."\<close>

definition sugg_more_detail :: ustr where
  "sugg_more_detail =
     [28155, 21152, 26356, 22810, 32454, 33410, 32553, 23567, 33539, 22260]"

text \<open>"Filter by tag."\<close>

definition sugg_by_tag :: ustr where
  "sugg_by_tag =
     [25353, 26631, 31614, 36807, 28388]"

text \<open>"View similar images."\<close>

definition sugg_view_similar :: ustr where
  "sugg_view_similar =
     [26597, 30475, 30456, 20284, 22270, 29255]"

text \<open>"Find similar photos."\<close>

definition sugg_find_similar :: ustr where
  "sugg_find_similar =
     [26597, 25214, 30456, 20284, 30340, 29031, 29255]"

text \<open>"When were these photos taken."\<close>

definition sugg_when_taken :: ustr where
  "sugg_when_taken =
     [36825, 20123, 29031, 29255, 26159, 20160, 20040, 26102, 20505, 25293, 30340]"

text \<open>"Tag these photos."\<close>

definition sugg_tag_these :: ustr where
  "sugg_tag_these =
     [32473, 36825, 20123, 29031, 29255, 25171, 26631, 31614]"

text \<open>
  \<open>generate_suggestions\<close> of the service; its third parameter \<open>history\<close> is never
  read and is left out.
\<close>

definition generate_suggestions :: "ustr \<Rightarrow> results \<Rightarrow> ustr list" where
  "generate_suggestions intent rs =
     (if intent = u ''search'' then
        (case rs of
           RDict d \<Rightarrow>
             (let total = get_total d in
              if total = 0 then [sugg_rephrase, sugg_view_all, sugg_by_date]
              else if total > 10 then [sugg_more_detail, sugg_by_tag, sugg_view_similar]
              else [sugg_find_similar, sugg_when_taken, sugg_tag_these])
         | RNone \<Rightarrow> [])
      else [])"

section \<open>The agent router (app/routers/agent.py)\<close>

subsection \<open>Backend collaborators, errors and result dictionaries\<close>

text \<open>
  Modelled from the spec: the enumerations \<open>AgentAction\<close> and \<open>ResponseStatus\<close> of
  \<open>app/models\<close>, which the router imports; their members are the ones the router names.
\<close>

datatype agent_action = SEARCH | UPLOAD | DELETE | UPDATE | ANALYZE

datatype response_status = SUCCESS | ERROR

text \<open>
  The exceptions the router raises: \<open>ValueError\<close> and \<open>RuntimeError\<close> with their
  message, \<open>HTTPException\<close> with its status code and detail.
\<close>

datatype error = ValueError ustr | RuntimeError ustr | HTTPException nat ustr

text \<open>
  The dictionary returned by \<open>search_service.search\<close> has the keys \<open>total\<close> and
  \<open>items\<close> (section 6 of the specification). The metadata dictionary built by
  \<open>_execute_update\<close> has at most the keys \<open>tags\<close> and \<open>description\<close>.
\<close>

record search_result =
  sr_total :: int
  sr_items :: "pyval list"

record update_data =
  ud_tags :: "pyval option"
  ud_description :: "pyval option"

text \<open>
  Modelled from the spec: the services of \<open>app/services\<close> behind the router, which are
  not part of the sources. Each is an oracle with the signature of section 6: the argument
  values of a call determine its answer during one request. Every call the router makes
  is recorded, in order, as a \<open>call\<close>.
\<close>

record backends =
  search_is_initialized :: bool
  search_search :: "pyval \<Rightarrow> pyval \<Rightarrow> pyval \<Rightarrow> pyval \<Rightarrow> pyval \<Rightarrow> search_result"
  search_by_text :: "ustr \<Rightarrow> int \<Rightarrow> rat option \<Rightarrow> pyval list"
  storage_delete_image :: "pyval \<Rightarrow> bool"
  vdb_is_initialized :: bool
  vdb_delete :: "pyval \<Rightarrow> bool"
  vdb_update_metadata :: "pyval \<Rightarrow> update_data \<Rightarrow> bool"

datatype call =
    CallSearch pyval pyval pyval pyval pyval
  | CallSearchByText ustr int "rat option"
  | CallStorageDelete pyval
  | CallVdbDelete pyval
  | CallVdbUpdate pyval update_data

text \<open>
  The result dictionary of an action: \<open>success\<close>, \<open>action\<close>, \<open>message\<close> and, for
  search and delete only, \<open>result\<close>.
\<close>

datatype payload = PSearch search_result | PDelete (file_deleted: bool) (vector_deleted: bool)

record action_result =
  ar_success :: bool
  ar_action :: ustr
  ar_result :: "payload option"
  ar_message :: ustr

text \<open>\<open>params.get(key)\<close> and \<open>params.get(key, default)\<close>\<close>

definition dict_get :: "(ustr \<rightharpoonup> pyval) \<Rightarrow> ustr \<Rightarrow> pyval" where
  "dict_get params k = (case params k of None \<Rightarrow> PNone | Some v \<Rightarrow> v)"

definition dict_get_default :: "(ustr \<rightharpoonup> pyval) \<Rightarrow> ustr \<Rightarrow> pyval \<Rightarrow> pyval" where
  "dict_get_default params k dflt = (case params k of None \<Rightarrow> dflt | Some v \<Rightarrow> v)"

subsection \<open>The action handlers of AgentInterface\<close>

text \<open>"The search service is not initialised."\<close>

definition msg_search_uninit :: ustr where
  "msg_search_uninit =
     [25628, 32034, 26381, 21153, 26410, 21021, 22987, 21270]"

text \<open>"Found " (before the count).\<close>

definition msg_found_pre :: ustr where
  "msg_found_pre =
     [25214, 21040, 32]"

text \<open>" related images" (after the count).\<close>

definition msg_found_post :: ustr where
  "msg_found_post =
     [32, 24352, 30456, 20851, 22270, 29255]"

text \<open>"URL upload is not implemented yet, please use the /storage/upload interface."\<close>

definition msg_upload_unimpl :: ustr where
  "msg_upload_unimpl =
     [85, 82, 76, 19978, 20256, 21151, 33021, 26242, 26410, 23454, 29616, 65292,
      35831, 20351, 29992, 47, 115, 116, 111, 114, 97, 103, 101, 47, 117, 112, 108,
      111, 97, 100, 25509, 21475]"

text \<open>"image_id must be provided."\<close>

definition msg_need_image_id :: ustr where
  "msg_need_image_id =
     [24517, 39035, 25552, 20379, 105, 109, 97, 103, 101, 95, 105, 100]"

text \<open>"The image has been deleted."\<close>

definition msg_deleted :: ustr where
  "msg_deleted =
     [22270, 29255, 24050, 21024, 38500]"

text \<open>"The image does not exist."\<close>

definition msg_not_exist :: ustr where
  "msg_not_exist =
     [22270, 29255, 19981, 23384, 22312]"

text \<open>"Nothing to update was provided."\<close>

definition msg_nothing_to_update :: ustr where
  "msg_nothing_to_update =
     [26410, 25552, 20379, 20219, 20309, 26356, 26032, 20869, 23481]"

text \<open>"Update succeeded."\<close>

definition msg_update_ok :: ustr where
  "msg_update_ok =
     [26356, 26032, 25104, 21151]"

text \<open>"Update failed."\<close>

definition msg_update_failed :: ustr where
  "msg_update_failed =
     [26356, 26032, 22833, 36133]"

text \<open>"Image analysis is not implemented yet; a later version will support it."\<close>

definition msg_analyze_unimpl :: ustr where
  "msg_analyze_unimpl =
     [22270, 29255, 20998, 26512, 21151, 33021, 26242, 26410, 23454, 29616, 65292,
      23558, 22312, 21518, 32493, 29256, 26412, 20013, 25903, 25345]"

text \<open>
  Each handler returns what it raises or returns, together with the backend calls it made.
\<close>

type_synonym 'a outcome = "(error + 'a) \<times> call list"

definition execute_search :: "backends \<Rightarrow> (ustr \<rightharpoonup> pyval) \<Rightarrow> action_result outcome" where
  "execute_search bk params =
     (if \<not> search_is_initialized bk then (Inl (RuntimeError msg_search_uninit), [])
      else
        (let query_text = dict_get params (u ''query_text'');
             query_image_id = dict_get params (u ''query_image_id'');
             query_image_url = dict_get params (u ''query_image_url'');
             top_k = dict_get_default params (u ''top_k'') (PInt 10);
             filter_tags = dict_get params (u ''filter_tags'');
             r = search_search bk query_text query_image_id query_image_url top_k filter_tags
         in (Inr \<lparr>ar_success = True, ar_action = u ''search'', ar_result = Some (PSearch r),
                   ar_message = msg_found_pre @ str_int (sr_total r) @ msg_found_post\<rparr>,
             [CallSearch query_text query_image_id query_image_url top_k filter_tags])))"

definition execute_upload :: "backends \<Rightarrow> (ustr \<rightharpoonup> pyval) \<Rightarrow> action_result outcome" where
  "execute_upload bk params =
     (Inr \<lparr>ar_success = False, ar_action = u ''upload'', ar_result = None,
            ar_message = msg_upload_unimpl\<rparr>, [])"

definition execute_delete :: "backends \<Rightarrow> (ustr \<rightharpoonup> pyval) \<Rightarrow> action_result outcome" where
  "execute_delete bk params =
     (let image_id = dict_get params (u ''image_id'') in
      if \<not> truthy image_id then (Inl (ValueError msg_need_image_id), [])
      else
        (let fd = storage_delete_image bk image_id;
             (vd, vcalls) =
               (if vdb_is_initialized bk then (vdb_delete bk image_id, [CallVdbDelete image_id])
                else (False, []))
         in (Inr \<lparr>ar_success = fd, ar_action = u ''delete'',
                   ar_result = Some (PDelete fd vd),
                   ar_message = (if fd then msg_deleted else msg_not_exist)\<rparr>,
             CallStorageDelete image_id # vcalls)))"

definition execute_update :: "backends \<Rightarrow> (ustr \<rightharpoonup> pyval) \<Rightarrow> action_result outcome" where
  "execute_update bk params =
     (let image_id = dict_get params (u ''image_id'') in
      if \<not> truthy image_id then (Inl (ValueError msg_need_image_id), [])
      else
        (let upd = \<lparr>ud_tags = params (u ''tags''), ud_description = params (u ''description'')\<rparr> in
         if ud_tags upd = None \<and> ud_description upd = None then
           (Inr \<lparr>ar_success = False, ar_action = u ''update'', ar_result = None,
                  ar_message = msg_nothing_to_update\<rparr>, [])
         else
           (let success = vdb_update_metadata bk image_id upd in
            (Inr \<lparr>ar_success = success, ar_action = u ''update'', ar_result = None,
                   ar_message = (if success then msg_update_ok else msg_update_failed)\<rparr>,
             [CallVdbUpdate image_id upd]))))"

definition execute_analyze :: "backends \<Rightarrow> (ustr \<rightharpoonup> pyval) \<Rightarrow> action_result outcome" where
  "execute_analyze bk params =
     (Inr \<lparr>ar_success = False, ar_action = u ''analyze'', ar_result = None,
            ar_message = msg_analyze_unimpl\<rparr>, [])"

text \<open>
  \<open>execute_action\<close>; the final \<open>else\<close> of the source cannot be reached with a member of
  the enumeration. The \<open>context\<close> argument is never read.
\<close>

fun execute_action ::
  "backends \<Rightarrow> agent_action \<Rightarrow> (ustr \<rightharpoonup> pyval) \<Rightarrow> action_result outcome" where
  "execute_action bk SEARCH params = execute_search bk params"
| "execute_action bk UPLOAD params = execute_upload bk params"
| "execute_action bk DELETE params = execute_delete bk params"
| "execute_action bk UPDATE params = execute_update bk params"
| "execute_action bk ANALYZE params = execute_analyze bk params"

subsection \<open>Suggestions after a directly executed action\<close>

text \<open>"Try searching with different keywords."\<close>

definition rsugg_other_keywords :: ustr where
  "rsugg_other_keywords =
     [23581, 35797, 20351, 29992, 19981, 21516, 30340, 20851, 38190, 35789, 25628,
      32034]"

text \<open>"Check whether a related tag could filter."\<close>

definition rsugg_check_tags :: ustr where
  "rsugg_check_tags =
     [26816, 26597, 26159, 21542, 26377, 30456, 20851, 26631, 31614, 21487, 20197,
      36807, 28388]"

text \<open>"You can add a more specific description to narrow the search."\<close>

definition rsugg_more_specific :: ustr where
  "rsugg_more_specific =
     [21487, 20197, 28155, 21152, 26356, 20855, 20307, 30340, 25551, 36848, 26469,
      32553, 23567, 25628, 32034, 33539, 22260]"

text \<open>"Try tag filtering to sharpen the results."\<close>

definition rsugg_use_tags :: ustr where
  "rsugg_use_tags =
     [23581, 35797, 20351, 29992, 26631, 31614, 36807, 28388, 26469, 31934, 30830,
      32467, 26524]"

text \<open>"The delete operation is complete, related data has been cleaned up."\<close>

definition rsugg_deleted :: ustr where
  "rsugg_deleted =
     [21024, 38500, 25805, 20316, 24050, 23436, 25104, 65292, 30456, 20851, 25968,
      25454, 24050, 28165, 29702]"

text \<open>"Update succeeded; you can search to verify its effect."\<close>

definition rsugg_updated :: ustr where
  "rsugg_updated =
     [26356, 26032, 25104, 21151, 65292, 21487, 20197, 25628, 32034, 39564, 35777,
      26356, 26032, 25928, 26524]"

text \<open>
  \<open>result.get("result", {}).get("total", 0)\<close>: the count of a search payload, and
  \<open>0\<close> when there is no payload or the payload has no \<open>total\<close> key.
\<close>

definition result_total :: "action_result \<Rightarrow> int" where
  "result_total r =
     (case ar_result r of
        None \<Rightarrow> 0
      | Some (PSearch sr) \<Rightarrow> sr_total sr
      | Some (PDelete fd vd) \<Rightarrow> 0)"

text \<open>
  The module-level function \<open>_generate_suggestions\<close> of the router (the leading
  underscore cannot start a name here, and the service already has
  \<open>generate_suggestions\<close>).
\<close>

fun route_generate_suggestions :: "agent_action \<Rightarrow> action_result \<Rightarrow> ustr list" where
  "route_generate_suggestions SEARCH r =
     (if ar_success r then
        (let total = result_total r in
         if total = 0 then [rsugg_other_keywords, rsugg_check_tags]
         else if total > 10 then [rsugg_more_specific, rsugg_use_tags]
         else [])
      else [])"
| "route_generate_suggestions DELETE r = (if ar_success r then [rsugg_deleted] else [])"
| "route_generate_suggestions UPDATE r = (if ar_success r then [rsugg_updated] else [])"
| "route_generate_suggestions UPLOAD r = []"
| "route_generate_suggestions ANALYZE r = []"

record agent_response =
  rsp_status :: response_status
  rsp_message :: ustr
  rsp_action :: agent_action
  rsp_result :: "payload option"
  rsp_suggestions :: "ustr list"

text \<open>The route \<open>POST /agent/execute\<close>.\<close>

definition execute_agent_action ::
  "backends \<Rightarrow> agent_action \<Rightarrow> (ustr \<rightharpoonup> pyval) \<Rightarrow> agent_response outcome" where
  "execute_agent_action bk action params =
     (case execute_action bk action params of
        (Inl e, calls) \<Rightarrow> (Inl e, calls)
      | (Inr r, calls) \<Rightarrow>
          (let suggestions = route_generate_suggestions action r in
           (Inr \<lparr>rsp_status = (if ar_success r then SUCCESS else ERROR),
                  rsp_message = ar_message r, rsp_action = action,
                  rsp_result = ar_result r, rsp_suggestions = suggestions\<rparr>, calls)))"

subsection \<open>The chat route\<close>

text \<open>"Deleting needs an image ID, please use the /agent/execute interface."\<close>

definition chat_msg_delete :: ustr where
  "chat_msg_delete =
     [21024, 38500, 21151, 33021, 38656, 35201, 25351, 23450, 22270, 29255, 73, 68,
      65292, 35831, 20351, 29992, 32, 47, 97, 103, 101, 110, 116, 47, 101, 120, 101,
      99, 117, 116, 101, 32, 25509, 21475]"

text \<open>"For uploading please use the /storage/upload interface."\<close>

definition chat_msg_upload :: ustr where
  "chat_msg_upload =
     [19978, 20256, 21151, 33021, 35831, 20351, 29992, 32, 47, 115, 116, 111, 114, 97,
      103, 101, 47, 117, 112, 108, 111, 97, 100, 32, 25509, 21475]"

text \<open>"Image analysis is coming soon."\<close>

definition chat_msg_analyze :: ustr where
  "chat_msg_analyze =
     [22270, 29255, 20998, 26512, 21151, 33021, 21363, 23558, 19978, 32447]"

text \<open>"Sorry, I do not quite understand what you mean."\<close>

definition chat_msg_unknown :: ustr where
  "chat_msg_unknown =
     [25265, 27465, 65292, 25105, 36824, 19981, 22826, 29702, 35299, 24744, 30340,
      24847, 24605]"

record chat_message =
  cm_query :: ustr
  cm_session_id :: "ustr option"
  cm_top_k :: int
  cm_score_threshold :: "rat option"

record chat_response =
  cr_session_id :: ustr
  cr_answer :: ustr
  cr_intent :: ustr
  cr_optimized_query :: ustr
  cr_results :: results
  cr_suggestions :: "ustr list"
  cr_timestamp :: datetime

text \<open>
  What one chat turn reads from outside: the identifier and the clock value for each of
  the two places that may call \<open>create_session\<close>, the clock value read by
  \<open>optimize_query\<close>, and the one read for the response timestamp (kept as the clock
  value, not as its ISO text).
\<close>

record chat_draws =
  d_uuid_first :: ustr
  d_now_first :: datetime
  d_uuid_second :: ustr
  d_now_second :: datetime
  d_now_optimize :: datetime
  d_now_response :: datetime

definition message_only :: "ustr \<Rightarrow> results" where
  "message_only m = RDict \<lparr>r_total = None, r_images = None, r_message = Some m\<rparr>"

text \<open>
  \<open>agent_chat\<close> returns the response or the raised exception, the backend calls made,
  and the agent service as the turn leaves it.
\<close>

definition agent_chat ::
  "(ustr \<Rightarrow> ustr) \<Rightarrow> backends \<Rightarrow> chat_draws \<Rightarrow> chat_message \<Rightarrow> agent_service \<Rightarrow>
     (error + chat_response) \<times> call list \<times> agent_service" where
  "agent_chat str_lower bk dr message agent_svc =
     (let svc0 = (if \<not> is_initialized agent_svc then initialize agent_svc else agent_svc);
          (sid1, svc1) =
            (case cm_session_id message of
               None \<Rightarrow> create_session None (d_uuid_first dr) (d_now_first dr) svc0
             | Some sid \<Rightarrow>
                 if sid = [] then create_session None (d_uuid_first dr) (d_now_first dr) svc0
                 else (sid, svc0));
          (session_id, svc2) =
            (case get_session sid1 svc1 of
               None \<Rightarrow> create_session None (d_uuid_second dr) (d_now_second dr) svc1
             | Some session \<Rightarrow> (sid1, svc1));
          intent_result = detect_intent str_lower (cm_query message);
          intent = ir_intent intent_result;
          (optimized_query, svc3) =
            optimize_query (cm_query message) (Some session_id) (d_now_optimize dr) svc2;
          finish = (\<lambda>rs calls.
            (Inr \<lparr>cr_session_id = session_id,
                   cr_answer = generate_response intent rs (cm_query message),
                   cr_intent = intent, cr_optimized_query = optimized_query,
                   cr_results = rs, cr_suggestions = generate_suggestions intent rs,
                   cr_timestamp = d_now_response dr\<rparr>, calls, svc3))
      in
      if intent = u ''search'' then
        (if \<not> search_is_initialized bk then
           (Inl (HTTPException 503 msg_search_uninit), [], svc3)
         else
           (let search_results =
                  search_by_text bk optimized_query (cm_top_k message)
                    (cm_score_threshold message)
            in finish
                 (RDict \<lparr>r_total = Some (int (length search_results)),
                          r_images = Some search_results, r_message = None\<rparr>)
                 [CallSearchByText optimized_query (cm_top_k message)
                    (cm_score_threshold message)]))
      else if intent = u ''delete'' then finish (message_only chat_msg_delete) []
      else if intent = u ''upload'' then finish (message_only chat_msg_upload) []
      else if intent = u ''analyze'' then finish (message_only chat_msg_analyze) []
      else finish (message_only chat_msg_unknown) [])"

section \<open>Sequences of session-store operations\<close>

text \<open>
  The operations on the session store, each with what it reads from outside: a create
  call carries the identifier it draws from \<open>uuid.uuid4()\<close> and its clock value, an
  optimize call its clock value. \<open>run_ops\<close> runs a sequence from a service state and
  collects what each call returned.
\<close>

datatype store_op =
    Create "ustr option" ustr datetime
  | Get ustr
  | Optimize ustr "ustr option" datetime

datatype op_result = Created ustr | Got "session option" | Optimized ustr

fun exec_op :: "store_op \<Rightarrow> agent_service \<Rightarrow> op_result \<times> agent_service" where
  "exec_op (Create uid uuid4 now) svc =
     (case create_session uid uuid4 now svc of (sid, svc') \<Rightarrow> (Created sid, svc'))"
| "exec_op (Get sid) svc = (Got (get_session sid svc), svc)"
| "exec_op (Optimize q sid now) svc =
     (case optimize_query q sid now svc of (q', svc') \<Rightarrow> (Optimized q', svc'))"

fun run_ops :: "store_op list \<Rightarrow> agent_service \<Rightarrow> op_result list \<times> agent_service" where
  "run_ops [] svc = ([], svc)"
| "run_ops (op # ops) svc =
     (case exec_op op svc of
        (r, svc') \<Rightarrow> (case run_ops ops svc' of (rs, svc'') \<Rightarrow> (r # rs, svc'')))"

text \<open>The identifiers handed out by the create calls, and the ones drawn for them.\<close>

fun allocated :: "op_result list \<Rightarrow> ustr list" where
  "allocated [] = []"
| "allocated (Created sid # rs) = sid # allocated rs"
| "allocated (Got g # rs) = allocated rs"
| "allocated (Optimized q # rs) = allocated rs"

fun uuid_draws :: "store_op list \<Rightarrow> ustr list" where
  "uuid_draws [] = []"
| "uuid_draws (Create uid uuid4 now # ops) = uuid4 # uuid_draws ops"
| "uuid_draws (Get sid # ops) = uuid_draws ops"
| "uuid_draws (Optimize q sid now # ops) = uuid_draws ops"

text \<open>The attributes set by \<open>__init__\<close> on a new object.\<close>

definition fresh_service :: agent_service where
  "fresh_service = \<lparr>svc_initialized = False, svc_sessions = Map.empty\<rparr>"

text \<open>An identifier of the form that \<open>str(uuid.uuid4())\<close> returns, for the concrete runs.\<close>

definition same_uuid :: ustr where
  "same_uuid = u ''3f2b8c1e-5a47-4d09-9e6b-0c1d2e3f4a5b''"

section \<open>Construction of the service object\<close>

text \<open>
  \<open>AgentService\<close> keeps its one instance in the class attribute \<open>_instance\<close>, and the
  module keeps a reference in the global \<open>_agent_service\<close>. Both name the same object,
  so objects live in a heap and are named by address. \<open>Blank\<close> is an object as
  \<open>object.__new__\<close> returns it, without attributes; \<open>Svc\<close> carries the attributes set
  by \<open>__init__\<close>.
\<close>

datatype obj = Blank | Svc agent_service

record pyworld =
  heap :: "nat \<rightharpoonup> obj"
  next_addr :: nat
  cls_instance :: "nat option"
  mod_agent_service :: "nat option"

definition object_new :: "pyworld \<Rightarrow> nat \<times> pyworld" where
  "object_new w =
     (next_addr w, w\<lparr>heap := (heap w)(next_addr w \<mapsto> Blank), next_addr := Suc (next_addr w)\<rparr>)"

text \<open>\<open>AgentService.__new__\<close>\<close>

definition AgentService_new :: "pyworld \<Rightarrow> nat \<times> pyworld" where
  "AgentService_new w =
     (case cls_instance w of
        None \<Rightarrow> (case object_new w of (a, w') \<Rightarrow> (a, w'\<lparr>cls_instance := Some a\<rparr>))
      | Some a \<Rightarrow> (a, w))"

text \<open>\<open>getattr(self, '_initialized', False)\<close>\<close>

definition getattr_initialized :: "pyworld \<Rightarrow> nat \<Rightarrow> bool" where
  "getattr_initialized w a =
     (case heap w a of Some (Svc s) \<Rightarrow> svc_initialized s | Some Blank \<Rightarrow> False | None \<Rightarrow> False)"

text \<open>\<open>AgentService.__init__\<close>\<close>

definition AgentService_init :: "nat \<Rightarrow> pyworld \<Rightarrow> pyworld" where
  "AgentService_init a w =
     w\<lparr>heap := (heap w)(a \<mapsto>
        Svc \<lparr>svc_initialized = getattr_initialized w a, svc_sessions = Map.empty\<rparr>)\<rparr>"

text \<open>
  The expression \<open>AgentService()\<close>: \<open>__new__\<close>, then \<open>__init__\<close> on the object it
  returned (which is an instance of the class).
\<close>

definition AgentService_call :: "pyworld \<Rightarrow> nat \<times> pyworld" where
  "AgentService_call w = (case AgentService_new w of (a, w') \<Rightarrow> (a, AgentService_init a w'))"

definition get_agent_service :: "pyworld \<Rightarrow> nat \<times> pyworld" where
  "get_agent_service w =
     (case mod_agent_service w of
        None \<Rightarrow> (case AgentService_call w of (a, w') \<Rightarrow> (a, w'\<lparr>mod_agent_service := Some a\<rparr>))
      | Some a \<Rightarrow> (a, w))"

text \<open>The service attributes of the object at an address, and a method call on it.\<close>

definition service_at :: "pyworld \<Rightarrow> nat \<Rightarrow> agent_service option" where
  "service_at w a = (case heap w a of Some (Svc s) \<Rightarrow> Some s | Some Blank \<Rightarrow> None | None \<Rightarrow> None)"

definition call_method ::
  "nat \<Rightarrow> (agent_service \<Rightarrow> 'r \<times> agent_service) \<Rightarrow> pyworld \<Rightarrow> ('r \<times> pyworld) option" where
  "call_method a m w =
     (case service_at w a of
        None \<Rightarrow> None
      | Some s \<Rightarrow> (case m s of (r, s') \<Rightarrow> Some (r, w\<lparr>heap := (heap w)(a \<mapsto> Svc s')\<rparr>)))"

definition world0 :: pyworld where
  "world0 = \<lparr>heap = Map.empty, next_addr = 0, cls_instance = None, mod_agent_service = None\<rparr>"

section \<open>Notions of the specification\<close>

text \<open>
  The specification's "substring matching against a fixed keyword set": some keyword of
  the set occurs contiguously in the string.
\<close>

definition contains_keyword :: "ustr list \<Rightarrow> ustr \<Rightarrow> bool" where
  "contains_keyword kws s = (\<exists>kw \<in> set kws. sublist kw s)"

section \<open>Concrete runs\<close>

text \<open>
  Backends for the runs below: one whose storage deletes the file while the vector index
  refuses, and one whose search is ready and returns two matches.
\<close>

definition bk_vector_fails :: backends where
  "bk_vector_fails =
     \<lparr>search_is_initialized = True,
      search_search = (\<lambda>a b c d e. \<lparr>sr_total = 0, sr_items = []\<rparr>),
      search_by_text = (\<lambda>q k t. []),
      storage_delete_image = (\<lambda>i. True),
      vdb_is_initialized = True,
      vdb_delete = (\<lambda>i. False),
      vdb_update_metadata = (\<lambda>i d. False)\<rparr>"

definition bk_ready :: backends where
  "bk_ready =
     \<lparr>search_is_initialized = True,
      search_search = (\<lambda>a b c d e. \<lparr>sr_total = 0, sr_items = []\<rparr>),
      search_by_text = (\<lambda>q k t. [PStr (u ''img_1''), PStr (u ''img_2'')]),
      storage_delete_image = (\<lambda>i. True),
      vdb_is_initialized = True,
      vdb_delete = (\<lambda>i. True),
      vdb_update_metadata = (\<lambda>i d. True)\<rparr>"

text \<open>The parameter dictionary \<open>{"image_id": "img_abc123"}\<close>.\<close>

definition params_img :: "ustr \<rightharpoonup> pyval" where
  "params_img = [u ''image_id'' \<mapsto> PStr (u ''img_abc123'')]"

definition other_uuid :: ustr where
  "other_uuid = u ''9a0b1c2d-3e4f-4a5b-8c6d-7e8f9a0b1c2d''"

definition draws0 :: chat_draws where
  "draws0 = \<lparr>d_uuid_first = same_uuid, d_now_first = 1, d_uuid_second = other_uuid,
             d_now_second = 2, d_now_optimize = 3, d_now_response = 4\<rparr>"

text \<open>
  The two chat messages of the specification's end-to-end scenarios: shanchu zhe zhang
  zhaopian, "delete this photo", and wo zuotian pai de xiaogou zhaopian, "the puppy
  photos I took yesterday", with \<open>top_k = 5\<close>.
\<close>

definition msg_delete_photo :: chat_message where
  "msg_delete_photo =
     \<lparr>cm_query = [21024, 38500, 36825, 24352, 29031, 29255], cm_session_id = None,
      cm_top_k = 10, cm_score_threshold = None\<rparr>"

definition msg_puppy :: chat_message where
  "msg_puppy =
     \<lparr>cm_query = [25105, 26152, 22825, 25293, 30340, 23567, 29399, 29031, 29255],
      cm_session_id = None, cm_top_k = 5, cm_score_threshold = None\<rparr>"

text \<open>
  From the empty world: the service is obtained through \<open>get_agent_service\<close> and a
  session is created on it.
\<close>

definition world_with_session :: pyworld where
  "world_with_session =
     (case get_agent_service world0 of
        (a, w) \<Rightarrow>
          (case call_method a (create_session None same_uuid 1) w of
             None \<Rightarrow> w
           | Some (sid, w') \<Rightarrow> w'))"

section \<open>Properties\<close>

subsection \<open>Evaluation helpers\<close>

lemma any_kw_in_iff: "any_kw_in kws s = contains_keyword kws s"
  by (simp add: any_kw_in_def contains_keyword_def list_ex_iff)

lemma intent_names:
  "u ''delete'' \<noteq> u ''unknown''" "u ''upload'' \<noteq> u ''unknown''"
  "u ''analyze'' \<noteq> u ''unknown''" "u ''search'' \<noteq> u ''unknown''"
  by (simp_all add: u_def)

lemmas keyword_eval =
  contains_keyword_def delete_keywords_def upload_keywords_def analyze_keywords_def
  lower_ascii_def u_def sublist_code(3)

lemma search_not_other:
  "u ''search'' \<noteq> u ''delete''" "u ''search'' \<noteq> u ''upload''"
  "u ''search'' \<noteq> u ''analyze''"
  by (simp_all add: u_def)

lemma same_uuid_nonempty: "same_uuid \<noteq> []"
  by (simp add: same_uuid_def u_def)

lemma uuids_differ: "same_uuid \<noteq> other_uuid"
  by (simp add: same_uuid_def other_uuid_def u_def)

lemma str_int_12: "str_int 12 = u ''12''"
  by (simp add: str_int_def str_nat.simps u_def)

lemma str_nat_digits: "\<forall>c \<in> set (str_nat n). 48 \<le> c \<and> c \<le> 57"
proof (induction n rule: str_nat.induct)
  case (1 n)
  show ?case
  proof (cases "n < 10")
    case True
    then show ?thesis by (simp add: str_nat.simps [of n])
  next
    case False
    then show ?thesis
      using "1.IH" by (simp add: str_nat.simps [of n])
  qed
qed

subsection \<open>Intent classification\<close>

text \<open>
  Claim C2. Classification is priority-ordered and the first match wins, by substring
  matching of the lower-cased query against the fixed keyword sets: a delete keyword gives
  \<open>delete\<close> with confidence 0.8 whatever else the query contains; otherwise an upload
  keyword gives \<open>upload\<close> with 0.8; otherwise an analyze keyword gives \<open>analyze\<close> with
  0.7; otherwise the result is \<open>search\<close> with 0.9. The intent \<open>unknown\<close> is never
  produced and the entities mapping is always empty. This holds for every lower-casing
  function, so in particular for Python's.
\<close>

theorem detect_intent_priority:
  "(contains_keyword delete_keywords (str_lower q) \<longrightarrow>
      detect_intent str_lower q =
        \<lparr>ir_intent = u ''delete'', ir_confidence = 0.8, ir_entities = Map.empty\<rparr>) \<and>
   (\<not> contains_keyword delete_keywords (str_lower q) \<and>
    contains_keyword upload_keywords (str_lower q) \<longrightarrow>
      detect_intent str_lower q =
        \<lparr>ir_intent = u ''upload'', ir_confidence = 0.8, ir_entities = Map.empty\<rparr>) \<and>
   (\<not> contains_keyword delete_keywords (str_lower q) \<and>
    \<not> contains_keyword upload_keywords (str_lower q) \<and>
    contains_keyword analyze_keywords (str_lower q) \<longrightarrow>
      detect_intent str_lower q =
        \<lparr>ir_intent = u ''analyze'', ir_confidence = 0.7, ir_entities = Map.empty\<rparr>) \<and>
   (\<not> contains_keyword delete_keywords (str_lower q) \<and>
    \<not> contains_keyword upload_keywords (str_lower q) \<and>
    \<not> contains_keyword analyze_keywords (str_lower q) \<longrightarrow>
      detect_intent str_lower q =
        \<lparr>ir_intent = u ''search'', ir_confidence = 0.9, ir_entities = Map.empty\<rparr>) \<and>
   ir_intent (detect_intent str_lower q) \<noteq> u ''unknown'' \<and>
   ir_entities (detect_intent str_lower q) = Map.empty"
  by (simp add: detect_intent_def Let_def any_kw_in_iff intent_names)

text \<open>
  Two runs: an upper-case delete keyword wins over an upload keyword in the same query,
  and a query without any keyword is a search.
\<close>

theorem detect_intent_priority_witness:
  "contains_keyword delete_keywords (lower_ascii (u ''Please DELETE the upload'')) \<and>
   contains_keyword upload_keywords (lower_ascii (u ''Please DELETE the upload'')) \<and>
   detect_intent lower_ascii (u ''Please DELETE the upload'') =
     \<lparr>ir_intent = u ''delete'', ir_confidence = 0.8, ir_entities = Map.empty\<rparr> \<and>
   \<not> contains_keyword delete_keywords (lower_ascii (u ''Sunset beach'')) \<and>
   \<not> contains_keyword upload_keywords (lower_ascii (u ''Sunset beach'')) \<and>
   \<not> contains_keyword analyze_keywords (lower_ascii (u ''Sunset beach'')) \<and>
   detect_intent lower_ascii (u ''Sunset beach'') =
     \<lparr>ir_intent = u ''search'', ir_confidence = 0.9, ir_entities = Map.empty\<rparr>"
proof -
  have d: "contains_keyword delete_keywords (lower_ascii (u ''Please DELETE the upload''))"
    by (simp add: keyword_eval)
  have up: "contains_keyword upload_keywords (lower_ascii (u ''Please DELETE the upload''))"
    by (simp add: keyword_eval)
  have n1: "\<not> contains_keyword delete_keywords (lower_ascii (u ''Sunset beach''))"
    by (simp add: keyword_eval)
  have n2: "\<not> contains_keyword upload_keywords (lower_ascii (u ''Sunset beach''))"
    by (simp add: keyword_eval)
  have n3: "\<not> contains_keyword analyze_keywords (lower_ascii (u ''Sunset beach''))"
    by (simp add: keyword_eval)
  show ?thesis
    using d up n1 n2 n3
      detect_intent_priority [of lower_ascii "u ''Please DELETE the upload''"]
      detect_intent_priority [of lower_ascii "u ''Sunset beach''"]
    by blast
qed

subsection \<open>Follow-up suggestions\<close>

text \<open>
  The claim that a search with total 0 gets exactly 2 suggestions, and one with total
  above 10 or between 1 and 10 exactly 3, fails on both functions that produce
  suggestions: the service's \<open>generate_suggestions\<close> returns 3 entries for total 0, and
  the router's \<open>_generate_suggestions\<close> returns 2 entries for total 11 and none for
  total 5.
\<close>

theorem suggestions_counterexample:
  "length (generate_suggestions (u ''search'')
      (RDict \<lparr>r_total = Some 0, r_images = Some [], r_message = None\<rparr>)) \<noteq> 2 \<and>
   length (route_generate_suggestions SEARCH
      \<lparr>ar_success = True, ar_action = u ''search'',
       ar_result = Some (PSearch \<lparr>sr_total = 11, sr_items = []\<rparr>),
       ar_message = []\<rparr>) \<noteq> 3 \<and>
   length (route_generate_suggestions SEARCH
      \<lparr>ar_success = True, ar_action = u ''search'',
       ar_result = Some (PSearch \<lparr>sr_total = 5, sr_items = []\<rparr>),
       ar_message = []\<rparr>) \<noteq> 3"
  by (simp add: generate_suggestions_def get_total_def result_total_def)

text \<open>
  Claim C1, as the code has it. On the chat path, \<open>generate_suggestions\<close> returns exactly
  3 entries for intent search and any result dictionary, whatever its total (0, above 10,
  or anything else), and the empty list for a result that is not a dictionary and for
  every other intent. On the direct-execution path, \<open>_generate_suggestions\<close> returns for
  a successful search exactly 2 entries when the total is 0, exactly 2 when it is above
  10 and none when it is between 1 and 10; exactly 1 entry for a successful delete and
  for a successful update; and the empty list for every failed action and for upload and
  analyze.
\<close>

theorem suggestions_counts:
  "length (generate_suggestions (u ''search'') (RDict d)) = 3 \<and>
   generate_suggestions intent RNone = [] \<and>
   (intent \<noteq> u ''search'' \<longrightarrow> generate_suggestions intent rs = []) \<and>
   (ar_success r \<and> result_total r = 0 \<longrightarrow>
      length (route_generate_suggestions SEARCH r) = 2) \<and>
   (ar_success r \<and> result_total r > 10 \<longrightarrow>
      length (route_generate_suggestions SEARCH r) = 2) \<and>
   (ar_success r \<and> 1 \<le> result_total r \<and> result_total r \<le> 10 \<longrightarrow>
      route_generate_suggestions SEARCH r = []) \<and>
   (ar_success r \<longrightarrow> length (route_generate_suggestions DELETE r) = 1 \<and>
      length (route_generate_suggestions UPDATE r) = 1) \<and>
   (\<not> ar_success r \<longrightarrow> route_generate_suggestions a r = []) \<and>
   route_generate_suggestions UPLOAD r = [] \<and>
   route_generate_suggestions ANALYZE r = []"
  by (cases a) (auto simp add: generate_suggestions_def Let_def split: results.splits)

theorem suggestions_counts_witness:
  "u ''delete'' \<noteq> u ''search'' \<and>
   generate_suggestions (u ''delete'')
      (RDict \<lparr>r_total = Some 0, r_images = None, r_message = None\<rparr>) = [] \<and>
   length (generate_suggestions (u ''search'')
      (RDict \<lparr>r_total = Some 0, r_images = Some [], r_message = None\<rparr>)) = 3 \<and>
   length (route_generate_suggestions SEARCH
      \<lparr>ar_success = True, ar_action = u ''search'',
       ar_result = Some (PSearch \<lparr>sr_total = 11, sr_items = []\<rparr>),
       ar_message = []\<rparr>) = 2 \<and>
   route_generate_suggestions SEARCH
      \<lparr>ar_success = True, ar_action = u ''search'',
       ar_result = Some (PSearch \<lparr>sr_total = 5, sr_items = []\<rparr>),
       ar_message = []\<rparr> = []"
  using suggestions_counts
      [where d = "\<lparr>r_total = Some 0, r_images = Some [], r_message = None\<rparr>"
         and intent = "u ''delete''"
         and rs = "RDict \<lparr>r_total = Some 0, r_images = None, r_message = None\<rparr>"
         and r = "\<lparr>ar_success = True, ar_action = u ''search'',
                   ar_result = Some (PSearch \<lparr>sr_total = 11, sr_items = []\<rparr>),
                   ar_message = []\<rparr>"
         and a = SEARCH]
    suggestions_counts
      [where d = "\<lparr>r_total = Some 0, r_images = Some [], r_message = None\<rparr>"
         and intent = "u ''delete''"
         and rs = "RDict \<lparr>r_total = Some 0, r_images = None, r_message = None\<rparr>"
         and r = "\<lparr>ar_success = True, ar_action = u ''search'',
                   ar_result = Some (PSearch \<lparr>sr_total = 5, sr_items = []\<rparr>),
                   ar_message = []\<rparr>"
         and a = SEARCH]
  by (simp add: result_total_def search_not_other [symmetric])

subsection \<open>Replies\<close>

text \<open>
  Claim C6. For a search result dictionary with total \<open>t\<close> and a query \<open>q\<close>, the reply
  depends on the count: for \<open>t = 0\<close> it is the apology that quotes \<open>q\<close> and ends with
  the advice to describe it another way; for \<open>t = 1\<close> it is the singular sentence around
  \<open>q\<close>; for \<open>t > 1\<close> it is the plural sentence, which contains the decimal form of
  \<open>t\<close>.
\<close>

theorem generate_response_counts:
  "(r_total d = Some 0 \<longrightarrow>
      generate_response (u ''search'') (RDict d) q = resp_none_pre @ q @ resp_none_post \<and>
      sublist q (generate_response (u ''search'') (RDict d) q)) \<and>
   (r_total d = Some 1 \<longrightarrow>
      generate_response (u ''search'') (RDict d) q = resp_one_pre @ q @ resp_one_post) \<and>
   (r_total d = Some t \<and> t > 1 \<longrightarrow>
      generate_response (u ''search'') (RDict d) q =
        resp_many_pre @ str_int t @ resp_many_mid @ q @ resp_many_post \<and>
      sublist (str_int t) (generate_response (u ''search'') (RDict d) q))"
  by (simp add: generate_response_def get_total_def)

theorem generate_response_counts_witness:
  "generate_response (u ''search'')
      (RDict \<lparr>r_total = Some 0, r_images = Some [], r_message = None\<rparr>) (u ''cat'') =
     resp_none_pre @ u ''cat'' @ resp_none_post \<and>
   generate_response (u ''search'')
      (RDict \<lparr>r_total = Some 1, r_images = Some [PNone], r_message = None\<rparr>) (u ''cat'') =
     resp_one_pre @ u ''cat'' @ resp_one_post \<and>
   generate_response (u ''search'')
      (RDict \<lparr>r_total = Some 12, r_images = None, r_message = None\<rparr>) (u ''cat'') =
     resp_many_pre @ u ''12'' @ resp_many_mid @ u ''cat'' @ resp_many_post"
  using
    generate_response_counts
      [where d = "\<lparr>r_total = Some 0, r_images = Some [], r_message = None\<rparr>"
         and q = "u ''cat''" and t = 12]
    generate_response_counts
      [where d = "\<lparr>r_total = Some 1, r_images = Some [PNone], r_message = None\<rparr>"
         and q = "u ''cat''" and t = 12]
    generate_response_counts
      [where d = "\<lparr>r_total = Some 12, r_images = None, r_message = None\<rparr>"
         and q = "u ''cat''" and t = 12]
  by (simp add: str_int_12)


subsection \<open>Query optimisation\<close>

text \<open>
  The keys of the session store are the identifiers \<open>create_session\<close> stored, which
  are UUID strings and so never empty. A run from the fresh service keeps the empty
  string out of the store when no drawn identifier is empty.
\<close>

lemma run_ops_Cons_fst:
  "fst (run_ops (op # ops) svc) =
     fst (exec_op op svc) # fst (run_ops ops (snd (exec_op op svc)))"
  by (simp add: case_prod_beta)

lemma run_ops_Cons_snd:
  "snd (run_ops (op # ops) svc) = snd (run_ops ops (snd (exec_op op svc)))"
  by (simp add: case_prod_beta)

lemma exec_op_dom:
  "dom (svc_sessions (snd (exec_op op svc))) = dom (svc_sessions svc) \<union> set (uuid_draws [op])"
  by (cases op)
     (auto simp add: create_session_def optimize_query_def get_session_def Let_def
           split: option.splits if_splits)

lemma run_ops_dom:
  "dom (svc_sessions (snd (run_ops ops svc))) = dom (svc_sessions svc) \<union> set (uuid_draws ops)"
proof (induction ops arbitrary: svc)
  case Nil
  then show ?case by simp
next
  case (Cons op ops)
  then show ?case
    using Cons.IH [of "snd (exec_op op svc)"] exec_op_dom [of op svc]
    by (cases op) (auto simp add: run_ops_Cons_snd simp del: run_ops.simps)
qed

lemma run_ops_no_empty_key:
  "[] \<notin> set (uuid_draws ops) \<Longrightarrow> [] \<notin> dom (svc_sessions (snd (run_ops ops fresh_service)))"
  by (simp add: run_ops_dom fresh_service_def)

text \<open>
  Claim C3. For every query \<open>q\<close> and optional session id, on a store whose keys are
  non-empty identifiers: \<open>optimize_query\<close> returns \<open>q\<close> unchanged; if the session id is
  supplied and resolves to a session, the store changes in exactly one place, that
  session's history gaining one \<open>query_optimize\<close> event at its end that records the
  original, the optimized query and the timestamp; if the session id is absent or does
  not resolve, the service is left as it was. The function has no failing branch.
\<close>

theorem optimize_query_contract:
  assumes "[] \<notin> dom (svc_sessions svc)"
  shows "fst (optimize_query q sid now svc) = q \<and>
   (\<forall>s sess. sid = Some s \<and> get_session s svc = Some sess \<longrightarrow>
      snd (optimize_query q sid now svc) =
        svc\<lparr>svc_sessions := (svc_sessions svc)(s \<mapsto>
          sess\<lparr>s_history := s_history sess @
            [\<lparr>ev_type = u ''query_optimize'', ev_original = q, ev_optimized = q,
              ev_timestamp = now\<rparr>]\<rparr>)\<rparr>) \<and>
   ((sid = None \<or> (\<exists>s. sid = Some s \<and> get_session s svc = None)) \<longrightarrow>
      snd (optimize_query q sid now svc) = svc)"
  using assms
  by (auto simp add: optimize_query_def get_session_def Let_def split: option.splits)

theorem optimize_query_contract_witness:
  "[] \<notin> dom (svc_sessions (snd (create_session None same_uuid 1 fresh_service))) \<and>
   fst (optimize_query (u ''dog'') (Some same_uuid) 2
          (snd (create_session None same_uuid 1 fresh_service))) = u ''dog'' \<and>
   map_option s_history (get_session same_uuid
      (snd (optimize_query (u ''dog'') (Some same_uuid) 2
          (snd (create_session None same_uuid 1 fresh_service))))) =
     Some [\<lparr>ev_type = u ''query_optimize'', ev_original = u ''dog'', ev_optimized = u ''dog'',
            ev_timestamp = 2\<rparr>] \<and>
   get_session other_uuid (snd (create_session None same_uuid 1 fresh_service)) = None \<and>
   snd (optimize_query (u ''dog'') (Some other_uuid) 2
          (snd (create_session None same_uuid 1 fresh_service))) =
     snd (create_session None same_uuid 1 fresh_service) \<and>
   snd (optimize_query (u ''dog'') None 2
          (snd (create_session None same_uuid 1 fresh_service))) =
     snd (create_session None same_uuid 1 fresh_service)"
proof -
  let ?svc = "snd (create_session None same_uuid 1 fresh_service)"
  have h: "[] \<notin> dom (svc_sessions ?svc)"
    using same_uuid_nonempty by (simp add: create_session_def fresh_service_def)
  have g: "get_session same_uuid ?svc =
      Some \<lparr>s_user_id = None, s_created_at = 1, s_history = [], s_context = Map.empty\<rparr>"
    by (simp add: create_session_def fresh_service_def get_session_def)
  have n: "get_session other_uuid ?svc = None"
    using uuids_differ by (simp add: create_session_def fresh_service_def get_session_def)
  show ?thesis
    using h g n optimize_query_contract [OF h, of "u ''dog''" "Some same_uuid" 2]
      optimize_query_contract [OF h, of "u ''dog''" "Some other_uuid" 2]
      optimize_query_contract [OF h, of "u ''dog''" None 2]
    by (simp add: get_session_def)
qed

subsection \<open>Directly executed delete and update\<close>

lemma params_img_id: "params_img (u ''image_id'') = Some (PStr (u ''img_abc123''))"
  by (simp add: params_img_def)

lemma params_img_other:
  "params_img (u ''tags'') = None" "params_img (u ''description'') = None"
  by (simp_all add: params_img_def u_def)

lemma truthy_img: "truthy (PStr (u ''img_abc123''))"
  by (simp add: u_def)

text \<open>
  Claim C4. For a directly executed delete whose parameters carry an \<open>image_id\<close> (one
  the handler accepts, that is a value that is not falsy), the success flag is the outcome
  of the file deletion alone, and the payload reports both outcomes side by side: the
  vector outcome is false when the vector index is not initialised (it is then not
  called) or when its deletion fails. So when storage succeeds and the vector index fails
  or is skipped, the result is success with \<open>file_deleted\<close> true and
  \<open>vector_deleted\<close> false.
\<close>

theorem execute_delete_success_is_file_outcome:
  assumes "params (u ''image_id'') = Some image_id" and "truthy image_id"
  shows "execute_delete bk params =
     (Inr \<lparr>ar_success = storage_delete_image bk image_id, ar_action = u ''delete'',
            ar_result = Some (PDelete (storage_delete_image bk image_id)
                               (vdb_is_initialized bk \<and> vdb_delete bk image_id)),
            ar_message = (if storage_delete_image bk image_id then msg_deleted
                          else msg_not_exist)\<rparr>,
      CallStorageDelete image_id #
        (if vdb_is_initialized bk then [CallVdbDelete image_id] else [])) \<and>
   (storage_delete_image bk image_id \<and>
    (\<not> vdb_is_initialized bk \<or> \<not> vdb_delete bk image_id) \<longrightarrow>
      (\<exists>r calls. execute_action bk DELETE params = (Inr r, calls) \<and>
         ar_success r \<and> ar_result r = Some (PDelete True False) \<and>
         (\<not> vdb_is_initialized bk \<longrightarrow> calls = [CallStorageDelete image_id])))"
  using assms
  by (auto simp add: execute_delete_def dict_get_def Let_def)

theorem execute_delete_success_is_file_outcome_witness:
  "params_img (u ''image_id'') = Some (PStr (u ''img_abc123'')) \<and>
   truthy (PStr (u ''img_abc123'')) \<and>
   execute_delete bk_vector_fails params_img =
     (Inr \<lparr>ar_success = True, ar_action = u ''delete'',
            ar_result = Some (PDelete True False), ar_message = msg_deleted\<rparr>,
      [CallStorageDelete (PStr (u ''img_abc123'')), CallVdbDelete (PStr (u ''img_abc123''))])"
  using params_img_id truthy_img
    execute_delete_success_is_file_outcome
      [where params = params_img and image_id = "PStr (u ''img_abc123'')"
         and bk = bk_vector_fails]
  by (simp add: bk_vector_fails_def)

text \<open>
  Claim C5. A directly executed delete or update whose parameters lack an \<open>image_id\<close>
  raises the validation error without any call to a backend, through the handler and
  through the route alike. The handlers test \<open>if not image_id\<close>, so this covers the
  key being absent and the key carrying a falsy value (\<open>None\<close>, the empty string,
  \<open>0\<close>) alike. In every other case, an update with neither \<open>tags\<close> nor
  \<open>description\<close> returns a failure with the "nothing to update" message, again without
  any call to the vector index.
\<close>

theorem missing_image_id_fails_validation:
  "(params (u ''image_id'') = None \<longrightarrow> \<not> truthy (dict_get params (u ''image_id''))) \<and>
   (\<not> truthy (dict_get params (u ''image_id'')) \<longrightarrow>
      execute_action bk DELETE params = (Inl (ValueError msg_need_image_id), []) \<and>
      execute_action bk UPDATE params = (Inl (ValueError msg_need_image_id), []) \<and>
      execute_agent_action bk DELETE params = (Inl (ValueError msg_need_image_id), []) \<and>
      execute_agent_action bk UPDATE params = (Inl (ValueError msg_need_image_id), [])) \<and>
   (truthy (dict_get params (u ''image_id'')) \<and>
    params (u ''tags'') = None \<and> params (u ''description'') = None \<longrightarrow>
      execute_action bk UPDATE params =
        (Inr \<lparr>ar_success = False, ar_action = u ''update'', ar_result = None,
               ar_message = msg_nothing_to_update\<rparr>, []) \<and>
      (\<exists>rsp. execute_agent_action bk UPDATE params = (Inr rsp, []) \<and>
         rsp_status rsp = ERROR \<and> rsp_message rsp = msg_nothing_to_update))"
  by (simp add: execute_delete_def execute_update_def execute_agent_action_def dict_get_def)

text \<open>
  Three parameter dictionaries: the empty one, one whose \<open>image_id\<close> is the empty
  string, and one with a real \<open>image_id\<close> and nothing to update.
\<close>

theorem missing_image_id_fails_validation_witness:
  "Map.empty (u ''image_id'') = (None :: pyval option) \<and>
   \<not> truthy (dict_get Map.empty (u ''image_id'')) \<and>
   execute_action bk_vector_fails DELETE Map.empty = (Inl (ValueError msg_need_image_id), []) \<and>
   execute_action bk_vector_fails UPDATE Map.empty = (Inl (ValueError msg_need_image_id), []) \<and>
   \<not> truthy (dict_get [u ''image_id'' \<mapsto> PStr []] (u ''image_id'')) \<and>
   execute_action bk_vector_fails DELETE [u ''image_id'' \<mapsto> PStr []] =
     (Inl (ValueError msg_need_image_id), []) \<and>
   execute_action bk_vector_fails UPDATE [u ''image_id'' \<mapsto> PStr []] =
     (Inl (ValueError msg_need_image_id), []) \<and>
   truthy (dict_get params_img (u ''image_id'')) \<and>
   params_img (u ''tags'') = None \<and> params_img (u ''description'') = None \<and>
   execute_action bk_vector_fails UPDATE params_img =
     (Inr \<lparr>ar_success = False, ar_action = u ''update'', ar_result = None,
            ar_message = msg_nothing_to_update\<rparr>, [])"
proof -
  have e: "\<not> truthy (dict_get Map.empty (u ''image_id''))"
    by (simp add: dict_get_def)
  have f: "\<not> truthy (dict_get [u ''image_id'' \<mapsto> PStr []] (u ''image_id''))"
    by (simp add: dict_get_def)
  have t: "truthy (dict_get params_img (u ''image_id''))"
    using params_img_id truthy_img by (simp add: dict_get_def)
  show ?thesis
    using e f t params_img_other
      missing_image_id_fails_validation [where params = Map.empty and bk = bk_vector_fails]
      missing_image_id_fails_validation
        [where params = "[u ''image_id'' \<mapsto> PStr []]" and bk = bk_vector_fails]
      missing_image_id_fails_validation [where params = params_img and bk = bk_vector_fails]
    by simp
qed

subsection \<open>The chat route\<close>

lemma delete_not_search: "u ''delete'' \<noteq> u ''search''"
  by (simp add: u_def)

lemma detect_delete:
  "contains_keyword delete_keywords (str_lower q) \<Longrightarrow>
     ir_intent (detect_intent str_lower q) = u ''delete''"
  by (simp add: detect_intent_def any_kw_in_iff)

lemma chat_msg_delete_redirect:
  "chat_msg_delete \<noteq> [] \<and> sublist (u ''/agent/execute'') chat_msg_delete"
  by (simp add: chat_msg_delete_def u_def sublist_code(3))

text \<open>
  Claim C7. For every chat turn whose lower-cased query contains a delete keyword, the
  classifier gives \<open>delete\<close>, the handler returns a response whose results carry only
  a message, that message is not empty and names the direct-execution endpoint
  \<open>/agent/execute\<close>, and the turn makes no backend call at all, so none to storage or
  to the vector index.
\<close>

theorem chat_delete_redirects:
  assumes "contains_keyword delete_keywords (str_lower (cm_query message))"
  shows "ir_intent (detect_intent str_lower (cm_query message)) = u ''delete'' \<and>
   (\<exists>resp svc'. agent_chat str_lower bk dr message agent_svc = (Inr resp, [], svc') \<and>
      cr_intent resp = u ''delete'' \<and>
      cr_results resp =
        RDict \<lparr>r_total = None, r_images = None, r_message = Some chat_msg_delete\<rparr>) \<and>
   chat_msg_delete \<noteq> [] \<and> sublist (u ''/agent/execute'') chat_msg_delete"
  using assms detect_delete [of str_lower "cm_query message"] chat_msg_delete_redirect
  by (simp add: agent_chat_def Let_def message_only_def delete_not_search
        split: prod.splits)

theorem chat_delete_redirects_witness:
  "contains_keyword delete_keywords (lower_ascii (cm_query msg_delete_photo)) \<and>
   fst (snd (agent_chat lower_ascii bk_ready draws0 msg_delete_photo fresh_service)) = [] \<and>
   (\<exists>resp. fst (agent_chat lower_ascii bk_ready draws0 msg_delete_photo fresh_service) =
        Inr resp \<and>
      cr_intent resp = u ''delete'' \<and>
      cr_results resp =
        RDict \<lparr>r_total = None, r_images = None, r_message = Some chat_msg_delete\<rparr>)"
proof -
  have h: "contains_keyword delete_keywords (lower_ascii (cm_query msg_delete_photo))"
    by (simp add: msg_delete_photo_def keyword_eval)
  show ?thesis
    using h chat_delete_redirects
      [where str_lower = lower_ascii and message = msg_delete_photo and bk = bk_ready
         and dr = draws0 and agent_svc = fresh_service]
    by auto
qed

text \<open>
  Claim C8. For every chat turn whose intent is \<open>search\<close>: if the search backend is not
  ready, the turn fails with the service-unavailable error (status 503) and no search call
  is made; otherwise exactly one call is made, \<open>search_by_text\<close> with the optimized
  query (which is the query itself), the requested \<open>top_k\<close> and the optional
  \<open>score_threshold\<close>, and the results payload has the returned list as \<open>images\<close> and
  its length as \<open>total\<close>.
\<close>

theorem chat_search_contract:
  assumes "ir_intent (detect_intent str_lower (cm_query message)) = u ''search''"
  shows "(\<not> search_is_initialized bk \<longrightarrow>
      (\<exists>svc'. agent_chat str_lower bk dr message agent_svc =
         (Inl (HTTPException 503 msg_search_uninit), [], svc'))) \<and>
   (search_is_initialized bk \<longrightarrow>
      (\<exists>resp svc'. agent_chat str_lower bk dr message agent_svc =
         (Inr resp,
          [CallSearchByText (cr_optimized_query resp) (cm_top_k message)
             (cm_score_threshold message)], svc') \<and>
         cr_optimized_query resp = cm_query message \<and>
         cr_results resp =
           RDict \<lparr>r_total = Some (int (length
                     (search_by_text bk (cm_query message) (cm_top_k message)
                        (cm_score_threshold message)))),
                  r_images = Some (search_by_text bk (cm_query message) (cm_top_k message)
                        (cm_score_threshold message)),
                  r_message = None\<rparr>))"
  using assms
  by (simp add: agent_chat_def Let_def optimize_query_def split: prod.splits option.splits)

theorem chat_search_contract_witness:
  "ir_intent (detect_intent lower_ascii (cm_query msg_puppy)) = u ''search'' \<and>
   search_is_initialized bk_ready \<and>
   fst (snd (agent_chat lower_ascii bk_ready draws0 msg_puppy fresh_service)) =
     [CallSearchByText (cm_query msg_puppy) 5 None] \<and>
   (\<exists>resp. fst (agent_chat lower_ascii bk_ready draws0 msg_puppy fresh_service) = Inr resp \<and>
      cr_results resp =
        RDict \<lparr>r_total = Some 2, r_images = Some [PStr (u ''img_1''), PStr (u ''img_2'')],
               r_message = None\<rparr>) \<and>
   \<not> search_is_initialized (bk_ready\<lparr>search_is_initialized := False\<rparr>) \<and>
   fst (agent_chat lower_ascii (bk_ready\<lparr>search_is_initialized := False\<rparr>) draws0 msg_puppy
          fresh_service) = Inl (HTTPException 503 msg_search_uninit) \<and>
   fst (snd (agent_chat lower_ascii (bk_ready\<lparr>search_is_initialized := False\<rparr>) draws0
          msg_puppy fresh_service)) = []"
proof -
  have h: "ir_intent (detect_intent lower_ascii (cm_query msg_puppy)) = u ''search''"
    by (simp add: msg_puppy_def detect_intent_def any_kw_in_iff keyword_eval)
  have r: "search_is_initialized bk_ready"
    by (simp add: bk_ready_def)
  have k: "cm_top_k msg_puppy = 5" "cm_score_threshold msg_puppy = None"
    by (simp_all add: msg_puppy_def)
  have s: "search_by_text bk_ready q k t = [PStr (u ''img_1''), PStr (u ''img_2'')]" for q k t
    by (simp add: bk_ready_def)
  show ?thesis
    using h r
      chat_search_contract
        [where str_lower = lower_ascii and message = msg_puppy and bk = bk_ready
           and dr = draws0 and agent_svc = fresh_service]
      chat_search_contract
        [where str_lower = lower_ascii and message = msg_puppy
           and bk = "bk_ready\<lparr>search_is_initialized := False\<rparr>"
           and dr = draws0 and agent_svc = fresh_service]
    by (auto simp add: k s)
qed

subsection \<open>The session store over sequences of operations\<close>

lemma exec_op_preserves:
  assumes "get_session sid svc = Some sess" and "sid \<notin> set (uuid_draws [op])"
  shows "\<exists>sess'. get_session sid (snd (exec_op op svc)) = Some sess' \<and>
           s_created_at sess' = s_created_at sess \<and> s_user_id sess' = s_user_id sess \<and>
           prefix (s_history sess) (s_history sess')"
  using assms
  by (cases op)
     (auto simp add: create_session_def optimize_query_def get_session_def Let_def
           split: option.splits)

lemma run_ops_preserves:
  assumes "get_session sid svc = Some sess" and "sid \<notin> set (uuid_draws ops)"
  shows "\<exists>sess'. get_session sid (snd (run_ops ops svc)) = Some sess' \<and>
           s_created_at sess' = s_created_at sess \<and> s_user_id sess' = s_user_id sess \<and>
           prefix (s_history sess) (s_history sess')"
  using assms
proof (induction ops arbitrary: svc sess)
  case Nil
  then show ?case by simp
next
  case (Cons op ops)
  have a: "sid \<notin> set (uuid_draws [op])" and b: "sid \<notin> set (uuid_draws ops)"
    using Cons.prems(2) by (cases op; simp)+
  obtain s1 where s1: "get_session sid (snd (exec_op op svc)) = Some s1"
      "s_created_at s1 = s_created_at sess" "s_user_id s1 = s_user_id sess"
      "prefix (s_history sess) (s_history s1)"
    using exec_op_preserves [OF Cons.prems(1) a] by blast
  obtain s2 where s2: "get_session sid (snd (run_ops ops (snd (exec_op op svc)))) = Some s2"
      "s_created_at s2 = s_created_at s1" "s_user_id s2 = s_user_id s1"
      "prefix (s_history s1) (s_history s2)"
    using Cons.IH [OF s1(1) b] by blast
  from s1 s2 show ?case
    unfolding run_ops_Cons_snd by (metis prefix_order.order_trans)
qed

lemma run_ops_allocated: "allocated (fst (run_ops ops svc)) = uuid_draws ops"
proof (induction ops arbitrary: svc)
  case Nil
  then show ?case by simp
next
  case (Cons op ops)
  then show ?case
    by (cases op)
       (simp_all add: run_ops_Cons_fst create_session_def case_prod_beta del: run_ops.simps)
qed

lemma run_ops_append:
  "snd (run_ops (ops1 @ ops2) svc) = snd (run_ops ops2 (snd (run_ops ops1 svc)))"
proof (induction ops1 arbitrary: svc)
  case Nil
  then show ?case by simp
next
  case (Cons op ops1)
  then show ?case
    by (simp add: run_ops_Cons_snd del: run_ops.simps)
qed

text \<open>
  What the store itself does with the identifiers it is given: the create calls hand out
  exactly the identifiers drawn from \<open>uuid4\<close> (\<open>run_ops_allocated\<close>), and a session
  present after a first part of a run is still present after the rest of it, with the
  same creation time and user and with its earlier history as a prefix of its later
  history, as long as the rest of the run draws none of the identifiers drawn before.
  That the draws do not repeat is a property of the random generator behind \<open>uuid4\<close>,
  not of this code, which stores under the drawn key without looking.
\<close>

lemma sessions_persist:
  assumes "set (uuid_draws ops1) \<inter> set (uuid_draws ops2) = {}"
    and g: "get_session sid (snd (run_ops ops1 fresh_service)) = Some sess"
  shows "\<exists>sess'. get_session sid (snd (run_ops (ops1 @ ops2) fresh_service)) = Some sess' \<and>
           s_created_at sess' = s_created_at sess \<and> s_user_id sess' = s_user_id sess \<and>
           prefix (s_history sess) (s_history sess')"
proof -
  have "sid \<in> dom (svc_sessions (snd (run_ops ops1 fresh_service)))"
    using g by (auto simp add: get_session_def)
  then have "sid \<in> set (uuid_draws ops1)"
    by (simp add: run_ops_dom fresh_service_def)
  then have "sid \<notin> set (uuid_draws ops2)"
    using assms(1) by blast
  from run_ops_preserves [OF g this] show ?thesis
    by (auto simp add: run_ops_append)
qed

subsection \<open>Construction of the service object\<close>

lemma AgentService_call_existing:
  assumes "cls_instance w = Some a" and "heap w a = Some (Svc s)"
  shows "AgentService_call w =
     (a, w\<lparr>heap := (heap w)(a \<mapsto>
            Svc \<lparr>svc_initialized = svc_initialized s, svc_sessions = Map.empty\<rparr>)\<rparr>)"
  using assms
  by (simp add: AgentService_call_def AgentService_new_def AgentService_init_def
        getattr_initialized_def)

lemma AgentService_call_instance:
  "cls_instance (snd (AgentService_call w)) = Some (fst (AgentService_call w))"
  by (simp add: AgentService_call_def AgentService_new_def AgentService_init_def
        object_new_def case_prod_beta split: option.splits)

lemma AgentService_call_fst:
  "cls_instance w = Some a \<Longrightarrow> fst (AgentService_call w) = a"
  by (simp add: AgentService_call_def AgentService_new_def)

text \<open>
  Claim C10. Evaluating the constructor \<open>AgentService()\<close> again returns the same
  object, every evaluation leaves that object with an empty session mapping, and when an
  instance with service attributes already exists the evaluation returns it, keeps its
  \<open>_initialized\<close> flag and empties its sessions: a session that \<open>get_session\<close> found
  before the construction is not found on the object afterwards.
\<close>

theorem constructor_resets_sessions:
  "fst (AgentService_call (snd (AgentService_call w))) = fst (AgentService_call w) \<and>
   (\<exists>i. service_at (snd (AgentService_call w)) (fst (AgentService_call w)) =
      Some \<lparr>svc_initialized = i, svc_sessions = Map.empty\<rparr>) \<and>
   (cls_instance w = Some a \<and> service_at w a = Some s \<and> get_session sid s = Some sess \<longrightarrow>
      fst (AgentService_call w) = a \<and>
      service_at (snd (AgentService_call w)) a =
        Some \<lparr>svc_initialized = svc_initialized s, svc_sessions = Map.empty\<rparr> \<and>
      (\<forall>s'. service_at (snd (AgentService_call w)) a = Some s' \<longrightarrow>
         get_session sid s' = None))"
proof -
  have one: "fst (AgentService_call (snd (AgentService_call w))) = fst (AgentService_call w)"
    by (rule AgentService_call_fst [OF AgentService_call_instance])
  have two: "\<exists>i. service_at (snd (AgentService_call w)) (fst (AgentService_call w)) =
      Some \<lparr>svc_initialized = i, svc_sessions = Map.empty\<rparr>"
    by (simp add: AgentService_call_def AgentService_new_def AgentService_init_def
          object_new_def service_at_def case_prod_beta split: option.splits)
  have three: "fst (AgentService_call w) = a \<and>
      service_at (snd (AgentService_call w)) a =
        Some \<lparr>svc_initialized = svc_initialized s, svc_sessions = Map.empty\<rparr> \<and>
      (\<forall>s'. service_at (snd (AgentService_call w)) a = Some s' \<longrightarrow>
         get_session sid s' = None)"
    if "cls_instance w = Some a" and "service_at w a = Some s"
  proof -
    have "heap w a = Some (Svc s)"
      using that(2) by (simp add: service_at_def split: option.splits obj.splits)
    from AgentService_call_existing [OF that(1) this] show ?thesis
      by (simp add: service_at_def get_session_def)
  qed
  show ?thesis
    using one two three by blast
qed

lemma world_with_session_eval:
  "world_with_session =
     \<lparr>heap = [0 \<mapsto> Svc \<lparr>svc_initialized = False,
        svc_sessions = [same_uuid \<mapsto> \<lparr>s_user_id = None, s_created_at = 1, s_history = [],
           s_context = Map.empty\<rparr>]\<rparr>],
      next_addr = 1, cls_instance = Some 0, mod_agent_service = Some 0\<rparr>"
  by (simp add: world_with_session_def call_method_def get_agent_service_def world0_def
        AgentService_call_def AgentService_new_def AgentService_init_def object_new_def
        service_at_def create_session_def getattr_initialized_def)

theorem constructor_resets_sessions_witness:
  "cls_instance world_with_session = Some 0 \<and>
   service_at world_with_session 0 =
     Some \<lparr>svc_initialized = False,
        svc_sessions = [same_uuid \<mapsto> \<lparr>s_user_id = None, s_created_at = 1, s_history = [],
           s_context = Map.empty\<rparr>]\<rparr> \<and>
   fst (AgentService_call world_with_session) = 0 \<and>
   fst (get_agent_service (snd (AgentService_call world_with_session))) = 0 \<and>
   service_at (snd (AgentService_call world_with_session)) 0 =
     Some \<lparr>svc_initialized = False, svc_sessions = Map.empty\<rparr> \<and>
   map_option (get_session same_uuid)
     (service_at (snd (AgentService_call world_with_session)) 0) = Some None"
proof -
  let ?s = "\<lparr>svc_initialized = False,
        svc_sessions = [same_uuid \<mapsto> \<lparr>s_user_id = None, s_created_at = 1, s_history = [],
           s_context = Map.empty\<rparr>]\<rparr>"
  have c: "cls_instance world_with_session = Some 0"
    by (simp add: world_with_session_eval)
  have s: "service_at world_with_session 0 = Some ?s"
    by (simp add: world_with_session_eval service_at_def)
  have g: "get_session same_uuid ?s =
      Some \<lparr>s_user_id = None, s_created_at = 1, s_history = [], s_context = Map.empty\<rparr>"
    by (simp add: get_session_def)
  have m: "mod_agent_service (snd (AgentService_call world_with_session)) = Some 0"
    by (simp add: world_with_session_eval AgentService_call_def AgentService_new_def
          AgentService_init_def)
  show ?thesis
    using c s g
      constructor_resets_sessions
        [where w = world_with_session and a = 0 and s = ?s and sid = same_uuid]
    by (simp add: get_agent_service_def m)
qed


end
